theory Spec2Isabelle
  imports Main
begin

section \<open>Credential synchronisation: pkg/stub/secrets.go\<close>

text \<open>
  The handler of secret watch events: \<open>copyDefaultClusterPullSecret\<close>,
  \<open>secretsWeCareAbout\<close>, \<open>manageDockerCfgSecret\<close>, \<open>WaitingForCredential\<close> and
  \<open>processSecretEvent\<close>. The Go code mutates the handler \<open>h\<close> and the configuration
  \<open>cfg\<close> through pointers and talks to two interfaces (\<open>h.secretclientwrapper\<close>,
  \<open>h.crdwrapper\<close>); the model passes a state holding the handler, the configuration and
  the list of interface calls made so far, and returns it updated beside the Go return
  value. A nil \<open>error\<close> is \<open>None\<close>. Logging is left out. Timestamps of conditions are
  not modelled.
\<close>

subsection \<open>Errors\<close>

text \<open>
  \<open>fmt.Errorf\<close> builds a plain error from its text; the store answers with API status
  errors, of which \<open>kerrors.IsNotFound\<close> and \<open>kerrors.IsAlreadyExists\<close> read the reason.
  Both predicates are false on nil. \<open>Error\<close> is the text that the format \<open>%v\<close> prints.
\<close>

datatype StatusReason = StatusReasonNotFound | StatusReasonAlreadyExists | StatusReasonOther

datatype error = Errorf string | StatusError StatusReason string

fun Error :: "error \<Rightarrow> string" where
  "Error (Errorf m) = m"
| "Error (StatusError r m) = m"

fun IsNotFound :: "error option \<Rightarrow> bool" where
  "IsNotFound (Some (StatusError r m)) = (r = StatusReasonNotFound)"
| "IsNotFound (Some (Errorf m)) = False"
| "IsNotFound None = False"

fun IsAlreadyExists :: "error option \<Rightarrow> bool" where
  "IsAlreadyExists (Some (StatusError r m)) = (r = StatusReasonAlreadyExists)"
| "IsAlreadyExists (Some (Errorf m)) = False"
| "IsAlreadyExists None = False"

subsection \<open>Secrets, configuration, events\<close>

text \<open>
  \<open>corev1.Secret\<close> with the fields the file reads or writes, and \<open>Labels\<close> and \<open>Data\<close>
  standing for what \<open>DeepCopyInto\<close> carries over untouched. A Go map may be nil:
  \<open>Annotations\<close> is an optional map.
\<close>

record Secret =
  Name :: string
  Namespace :: string
  ResourceVersion :: string
  UID :: string
  Annotations :: "(string \<rightharpoonup> string) option"
  Labels :: "(string \<rightharpoonup> string) option"
  Data :: "string \<rightharpoonup> string"

datatype ConditionStatus = ConditionTrue | ConditionFalse | ConditionUnknown

datatype ManagementState = Managed | Unmanaged | Removed | Unrecognized

record ConfigCondition =
  Status :: ConditionStatus
  Message :: string

text \<open>
  \<open>v1.Config\<close>: \<open>cfg.Spec.ManagementState\<close>, the conditions by name, and
  \<open>ClusterNeedsCreds\<close>.
  Modelled from the spec: the method \<open>cfg.ClusterNeedsCreds()\<close> is declared outside this
  file; the spec has it as a boolean of the configuration that is derived externally, so
  it is a field here.
\<close>

record Config =
  ManagementState :: ManagementState
  Conditions :: "string \<rightharpoonup> ConfigCondition"
  ClusterNeedsCreds :: bool

record Event =
  Deleted :: bool

subsection \<open>Constants\<close>

definition coreosPullSecretNamespace :: string where
  "coreosPullSecretNamespace = ''kube-system''"

definition coreosPullSecretName :: string where
  "coreosPullSecretName = ''coreos-pull-secret''"

text \<open>
  Modelled from the spec: the constants \<open>v1.SamplesRegistryCredentials\<close>,
  \<open>v1.SamplesVersionAnnotation\<close> and \<open>v1.ImportCredentialsExist\<close> are declared
  outside this file. The spec calls them fixed well-known constants and writes the mirror
  identity as name \<open>SamplesRegistryCredentials\<close>; each is the string of its own name here.
  The mirror name differs from \<open>coreos-pull-secret\<close>, as the two \<open>case\<close> labels of
  the switch in \<open>manageDockerCfgSecret\<close> require.
\<close>

definition SamplesRegistryCredentials :: string where
  "SamplesRegistryCredentials = ''SamplesRegistryCredentials''"

definition SamplesVersionAnnotation :: string where
  "SamplesVersionAnnotation = ''SamplesVersionAnnotation''"

definition ImportCredentialsExist :: string where
  "ImportCredentialsExist = ''ImportCredentialsExist''"

subsection \<open>The handler and its collaborators\<close>

text \<open>
  The two interfaces are opaque: each method is a response function, which may depend on
  every call made before it (the implementation's hidden state) and on its arguments.
  \<open>Get\<close> returns \<open>(*Secret, error)\<close>: \<open>Inl\<close> the error, else the secret or nil.
  \<open>Create\<close> and \<open>Update\<close> return a secret that the file drops, and an error.
\<close>

datatype call =
    GetCall string string
  | CreateCall string Secret
  | UpdateCall string Secret
  | DeleteCall string string
  | UpdateStatusCall Config

text \<open>The calls that reach the status writer.\<close>

fun isUpdateStatusCall :: "call \<Rightarrow> bool" where
  "isUpdateStatusCall (UpdateStatusCall cfg) = True"
| "isUpdateStatusCall c = False"

record SecretClientWrapper =
  Get :: "call list \<Rightarrow> string \<Rightarrow> string \<Rightarrow> error + Secret option"
  Create :: "call list \<Rightarrow> string \<Rightarrow> Secret \<Rightarrow> error option"
  Update :: "call list \<Rightarrow> string \<Rightarrow> Secret \<Rightarrow> error option"
  Delete :: "call list \<Rightarrow> string \<Rightarrow> string \<Rightarrow> error option"

record CRDWrapper =
  UpdateStatus :: "call list \<Rightarrow> Config \<Rightarrow> error option"

text \<open>
  \<open>secretRetryCount\<close> only ever grows from a value below 3, by one: its machine width
  plays no role and it is an \<open>int\<close>.
\<close>

record Handler =
  version :: string
  secretRetryCount :: int
  secretclientwrapper :: SecretClientWrapper
  crdwrapper :: CRDWrapper

record State =
  handler :: Handler
  config :: Config
  calls :: "call list"

definition secretclientwrapper_Get ::
  "string \<Rightarrow> string \<Rightarrow> State \<Rightarrow> (error + Secret option) \<times> State" where
  "secretclientwrapper_Get ns n s =
     (Get (secretclientwrapper (handler s)) (calls s) ns n,
      s\<lparr>calls := calls s @ [GetCall ns n]\<rparr>)"

definition secretclientwrapper_Create ::
  "string \<Rightarrow> Secret \<Rightarrow> State \<Rightarrow> error option \<times> State" where
  "secretclientwrapper_Create ns sec s =
     (Create (secretclientwrapper (handler s)) (calls s) ns sec,
      s\<lparr>calls := calls s @ [CreateCall ns sec]\<rparr>)"

definition secretclientwrapper_Update ::
  "string \<Rightarrow> Secret \<Rightarrow> State \<Rightarrow> error option \<times> State" where
  "secretclientwrapper_Update ns sec s =
     (Update (secretclientwrapper (handler s)) (calls s) ns sec,
      s\<lparr>calls := calls s @ [UpdateCall ns sec]\<rparr>)"

definition secretclientwrapper_Delete ::
  "string \<Rightarrow> string \<Rightarrow> State \<Rightarrow> error option \<times> State" where
  "secretclientwrapper_Delete ns n s =
     (Delete (secretclientwrapper (handler s)) (calls s) ns n,
      s\<lparr>calls := calls s @ [DeleteCall ns n]\<rparr>)"

definition crdwrapper_UpdateStatus :: "State \<Rightarrow> error option \<times> State" where
  "crdwrapper_UpdateStatus s =
     (UpdateStatus (crdwrapper (handler s)) (calls s) (config s),
      s\<lparr>calls := calls s @ [UpdateStatusCall (config s)]\<rparr>)"

subsection \<open>Conditions\<close>

text \<open>
  Modelled from the spec: \<open>cfg.Condition\<close>, \<open>cfg.ConditionTrue\<close> (here
  \<open>Config_ConditionTrue\<close>, the name being taken by the status),
  \<open>h.GoodConditionUpdate\<close> and \<open>h.processError\<close> are defined outside this file. They
  are the spec's ConditionTracker (4.1): Get returns the named condition, a zero-value
  Unknown condition if it was never set; IsTrue tells whether its status is True; Set
  writes status and message of the named condition; there is no side effect beyond the
  in-memory object. \<open>GoodConditionUpdate\<close> takes no message and writes the empty one,
  the spec's mark of a status not yet reported. \<open>processError\<close> writes the text of the
  error, which every call in this file formats with \<open>%v\<close>. Its callers agree that it
  does not persist anything: \<open>processSecretEvent\<close> calls \<open>UpdateStatus\<close> itself after
  it, and \<open>WaitingForCredential\<close> tells its caller to. The spec does not say what error
  \<open>processError\<close> returns; that is the parameter \<open>pe\<close>, from the reported error to
  the returned one.
\<close>

definition Condition :: "Config \<Rightarrow> string \<Rightarrow> ConfigCondition" where
  "Condition cfg c =
     (case Conditions cfg c of
        None \<Rightarrow> \<lparr>Status = ConditionUnknown, Message = []\<rparr>
      | Some cond \<Rightarrow> cond)"

definition Config_ConditionTrue :: "Config \<Rightarrow> string \<Rightarrow> bool" where
  "Config_ConditionTrue cfg c = (Status (Condition cfg c) = ConditionTrue)"

definition GoodConditionUpdate :: "Config \<Rightarrow> ConditionStatus \<Rightarrow> string \<Rightarrow> Config" where
  "GoodConditionUpdate cfg newStatus conditionType =
     cfg\<lparr>Conditions := (Conditions cfg)(conditionType \<mapsto> \<lparr>Status = newStatus, Message = []\<rparr>)\<rparr>"

definition processError ::
  "(error \<Rightarrow> error option) \<Rightarrow> Config \<Rightarrow> string \<Rightarrow> ConditionStatus \<Rightarrow> error
     \<Rightarrow> error option \<times> Config" where
  "processError pe cfg ctype cstatus err =
     (pe err,
      cfg\<lparr>Conditions := (Conditions cfg)(ctype \<mapsto> \<lparr>Status = cstatus, Message = Error err\<rparr>)\<rparr>)"

subsection \<open>copyDefaultClusterPullSecret\<close>

text \<open>Lines 32 to 39: the deep copy with its identity rewritten and a fresh annotation map.\<close>

definition secretToCreate :: "Handler \<Rightarrow> Secret \<Rightarrow> Secret" where
  "secretToCreate h secret =
     secret\<lparr>Name := SamplesRegistryCredentials,
            Namespace := [],
            ResourceVersion := [],
            UID := [],
            Annotations := Some (Map.empty(SamplesVersionAnnotation \<mapsto> version h))\<rparr>"

text \<open>Lines 40 to 44: create, and update when the create says the secret exists.\<close>

definition createOrUpdate :: "Secret \<Rightarrow> State \<Rightarrow> error option \<times> State" where
  "createOrUpdate payload s =
     (case secretclientwrapper_Create ''openshift'' payload s of
        (err, s1) \<Rightarrow>
          if IsAlreadyExists err
          then secretclientwrapper_Update ''openshift'' payload s1
          else (err, s1))"

definition copyDefaultClusterPullSecret :: "Secret option \<Rightarrow> State \<Rightarrow> error option \<times> State" where
  "copyDefaultClusterPullSecret secret s =
     (case secret of
        None \<Rightarrow>
          (case secretclientwrapper_Get coreosPullSecretNamespace coreosPullSecretName s of
             (Inl err, s1) \<Rightarrow> (Some err, s1)
           | (Inr None, s1) \<Rightarrow> (None, s1)
           | (Inr (Some fetched), s1) \<Rightarrow> createOrUpdate (secretToCreate (handler s1) fetched) s1)
      | Some given \<Rightarrow> createOrUpdate (secretToCreate (handler s) given) s)"

subsection \<open>manageDockerCfgSecret\<close>

definition secretsWeCareAbout :: "Secret \<Rightarrow> bool" where
  "secretsWeCareAbout secret =
     (let kubeSecret = (Name secret = coreosPullSecretName
                        \<and> Namespace secret = coreosPullSecretNamespace);
          openshiftSecret = (Name secret = SamplesRegistryCredentials
                             \<and> Namespace secret = ''openshift'')
      in kubeSecret \<or> openshiftSecret)"

definition setCondition :: "ConditionStatus \<Rightarrow> State \<Rightarrow> State" where
  "setCondition st s = s\<lparr>config := GoodConditionUpdate (config s) st ImportCredentialsExist\<rparr>"

definition manageDockerCfgSecret :: "bool \<Rightarrow> Secret \<Rightarrow> State \<Rightarrow> error option \<times> State" where
  "manageDockerCfgSecret deleted secret s =
     (if \<not> secretsWeCareAbout secret then (None, s)
      else if Name secret = SamplesRegistryCredentials then
        (if deleted then
           (case copyDefaultClusterPullSecret None s of
              (Some err, s1) \<Rightarrow>
                if IsNotFound (Some err)
                then (None, setCondition ConditionFalse s1)
                else (Some err, s1)
            | (None, s1) \<Rightarrow> (None, setCondition ConditionTrue s1))
         else (None, s))
      else if Name secret = coreosPullSecretName then
        (if deleted then
           (case secretclientwrapper_Delete ''openshift'' SamplesRegistryCredentials s of
              (err, s1) \<Rightarrow>
                if err \<noteq> None \<and> \<not> IsNotFound err
                then (err, s1)
                else (None, setCondition ConditionFalse s1))
         else
           (case copyDefaultClusterPullSecret (Some secret) s of
              (err, s1) \<Rightarrow>
                if err = None
                then (err, setCondition ConditionTrue s1)
                else (err, s1)))
      else (None, s))"

subsection \<open>WaitingForCredential\<close>

definition WaitingForCredential ::
  "(error \<Rightarrow> error option) \<Rightarrow> Config \<Rightarrow> (bool \<times> bool) \<times> Config" where
  "WaitingForCredential pe cfg =
     (if ClusterNeedsCreds cfg then
        (let cred = Condition cfg ImportCredentialsExist in
         if length (Message cred) > 0 then ((True, False), cfg)
         else
           (let err = Errorf ''Cannot create rhel imagestreams to registry.redhat.io without the credentials being available''
            in ((True, True),
                snd (processError pe cfg ImportCredentialsExist ConditionFalse err))))
      else ((False, False), cfg))"

subsection \<open>processSecretEvent\<close>

text \<open>
  \<open>upserts\<close> is what \<open>cache.UpsertsAmount()\<close> answers when the call starts. The secret
  and the configuration are never nil here: the function dereferences both.
\<close>

definition hasVersionAnnotation :: "Secret \<Rightarrow> bool" where
  "hasVersionAnnotation secret =
     (case Annotations secret of
        None \<Rightarrow> False
      | Some annotations \<Rightarrow> annotations SamplesVersionAnnotation \<noteq> None)"

text \<open>Lines 201 to 222: what follows the branch on the openshift namespace.\<close>

definition manageAndFlush ::
  "(error \<Rightarrow> error option) \<Rightarrow> bool \<Rightarrow> bool \<Rightarrow> Secret \<Rightarrow> State \<Rightarrow> error option \<times> State" where
  "manageAndFlush pe removedState deleted secret s =
     (let s0 = s\<lparr>handler := (handler s)\<lparr>secretRetryCount := 0\<rparr>\<rparr> in
      if removedState then (None, s0)
      else
        (let beforeStatus = Status (Condition (config s0) ImportCredentialsExist) in
         case manageDockerCfgSecret deleted secret s0 of
           (Some err, s1) \<Rightarrow>
             crdwrapper_UpdateStatus
               (s1\<lparr>config := snd (processError pe (config s1) ImportCredentialsExist
                                     ConditionUnknown err)\<rparr>)
         | (None, s1) \<Rightarrow>
             (let afterStatus = Status (Condition (config s1) ImportCredentialsExist) in
              if beforeStatus = afterStatus then (None, s1)
              else crdwrapper_UpdateStatus s1)))"

text \<open>The two retry errors that \<open>processSecretEvent\<close> makes itself (lines 133 and 188).\<close>

definition busyError :: error where
  "busyError = Errorf ''retry secret event because in the middle of an sample upsert cycle''"

definition deletionRetryError :: error where
  "deletionRetryError =
     Errorf ''retry on credential deletion in the openshift namespace to make sure the operator deleted it''"

definition processSecretEvent ::
  "(error \<Rightarrow> error option) \<Rightarrow> int \<Rightarrow> Secret \<Rightarrow> Event \<Rightarrow> State \<Rightarrow> error option \<times> State" where
  "processSecretEvent pe upserts dockercfgSecret event s =
     (if upserts > 0
      then (Some busyError, s)
      else if ManagementState (config s) = Unmanaged then (None, s)
      else
        (let removedState = (ManagementState (config s) = Removed);
             deleted = Deleted event
         in
         if Namespace dockercfgSecret = ''openshift'' then
           (if \<not> deleted then
              (if hasVersionAnnotation dockercfgSecret then
                 (if \<not> Config_ConditionTrue (config s) ImportCredentialsExist
                  then crdwrapper_UpdateStatus (setCondition ConditionTrue s)
                  else (None, s))
               else
                 (let err = Errorf ''the samples credential was created/updated in the openshift namespace without the version annotation''
                  in case processError pe (config s) ImportCredentialsExist ConditionUnknown err of
                       (r, cfg1) \<Rightarrow> (r, s\<lparr>config := cfg1\<rparr>)))
            else if Config_ConditionTrue (config s) ImportCredentialsExist
                    \<and> secretRetryCount (handler s) < 3 then
              (Some deletionRetryError,
               s\<lparr>handler := (handler s)\<lparr>secretRetryCount := secretRetryCount (handler s) + 1\<rparr>\<rparr>)
            else if removedState then
              crdwrapper_UpdateStatus (setCondition ConditionFalse s)
            else manageAndFlush pe removedState deleted dockercfgSecret s)
         else manageAndFlush pe removedState deleted dockercfgSecret s))"

text \<open>
  Events are handled one at a time, each to completion, on the same handler and the same
  in-memory configuration: a sequence of deliveries, each with its own reading of the
  upsert counter, collecting what each call returns.
\<close>

fun deliveries ::
  "(error \<Rightarrow> error option) \<Rightarrow> (int \<times> Secret \<times> Event) list \<Rightarrow> State
     \<Rightarrow> error option list \<times> State" where
  "deliveries pe [] s = ([], s)"
| "deliveries pe ((upserts, secret, event) # rest) s =
     (case processSecretEvent pe upserts secret event s of
        (r, s1) \<Rightarrow> (case deliveries pe rest s1 of (rs, s2) \<Rightarrow> (r # rs, s2)))"

subsection \<open>Concrete collaborators and inputs\<close>

text \<open>
  A source secret, an annotated mirror secret, and a secret of another name in the
  openshift namespace; a store that answers \<open>Get\<close> with the source secret, \<open>Create\<close>
  with a chosen answer and everything else with success; a status writer that succeeds;
  a state built from a management state, a status of the condition and a retry count; and
  the same state with a chosen answer to \<open>Delete\<close>.
\<close>

definition sourceSecret :: Secret where
  "sourceSecret =
     \<lparr>Name = ''coreos-pull-secret'', Namespace = ''kube-system'', ResourceVersion = ''41'',
      UID = ''uid-1'', Annotations = None, Labels = None,
      Data = Map.empty(''.dockerconfigjson'' \<mapsto> ''{}'')\<rparr>"

definition mirrorSecret :: Secret where
  "mirrorSecret =
     \<lparr>Name = ''SamplesRegistryCredentials'', Namespace = ''openshift'', ResourceVersion = ''42'',
      UID = ''uid-2'',
      Annotations = Some (Map.empty(''SamplesVersionAnnotation'' \<mapsto> ''4.0.0'')),
      Labels = None, Data = Map.empty(''.dockerconfigjson'' \<mapsto> ''{}'')\<rparr>"

definition strangerSecret :: Secret where
  "strangerSecret =
     \<lparr>Name = ''builder-token'', Namespace = ''openshift'', ResourceVersion = ''7'',
      UID = ''uid-3'', Annotations = None, Labels = None, Data = Map.empty\<rparr>"

definition fakeSecretClient :: "error option \<Rightarrow> SecretClientWrapper" where
  "fakeSecretClient createAnswer =
     \<lparr>Get = (\<lambda>cs ns n. Inr (Some sourceSecret)),
      Create = (\<lambda>cs ns sec. createAnswer),
      Update = (\<lambda>cs ns sec. None),
      Delete = (\<lambda>cs ns n. None)\<rparr>"

definition fakeCRD :: CRDWrapper where
  "fakeCRD = \<lparr>UpdateStatus = (\<lambda>cs cfg. None)\<rparr>"

definition fakeState :: "error option \<Rightarrow> ManagementState \<Rightarrow> ConditionStatus \<Rightarrow> int \<Rightarrow> State" where
  "fakeState createAnswer ms st n =
     \<lparr>handler = \<lparr>version = ''4.0.0'', secretRetryCount = n,
                 secretclientwrapper = fakeSecretClient createAnswer, crdwrapper = fakeCRD\<rparr>,
      config = \<lparr>ManagementState = ms,
                Conditions = Map.empty(''ImportCredentialsExist'' \<mapsto> \<lparr>Status = st, Message = []\<rparr>),
                ClusterNeedsCreds = True\<rparr>,
      calls = []\<rparr>"

definition withDeleteAnswer :: "error option \<Rightarrow> State \<Rightarrow> State" where
  "withDeleteAnswer deleteAnswer s =
     s\<lparr>handler := (handler s)\<lparr>secretclientwrapper :=
          (secretclientwrapper (handler s))\<lparr>Delete := (\<lambda>cs ns n. deleteAnswer)\<rparr>\<rparr>\<rparr>"

section \<open>Properties\<close>

lemmas fake_defs = sourceSecret_def mirrorSecret_def strangerSecret_def fakeSecretClient_def
  fakeCRD_def fakeState_def

lemmas const_defs = coreosPullSecretNamespace_def coreosPullSecretName_def
  SamplesRegistryCredentials_def SamplesVersionAnnotation_def ImportCredentialsExist_def

lemmas wrapper_defs = secretclientwrapper_Get_def secretclientwrapper_Create_def
  secretclientwrapper_Update_def secretclientwrapper_Delete_def crdwrapper_UpdateStatus_def

lemmas cond_defs = Condition_def Config_ConditionTrue_def GoodConditionUpdate_def
  processError_def setCondition_def

lemmas code_defs = processSecretEvent_def manageAndFlush_def manageDockerCfgSecret_def
  secretsWeCareAbout_def copyDefaultClusterPullSecret_def createOrUpdate_def secretToCreate_def
  hasVersionAnnotation_def busyError_def deletionRetryError_def

subsection \<open>The handler is touched by processSecretEvent alone\<close>

lemma createOrUpdate_handler: "handler (snd (createOrUpdate p s)) = handler s"
  by (simp add: createOrUpdate_def secretclientwrapper_Create_def secretclientwrapper_Update_def)

lemma copyDefaultClusterPullSecret_handler:
  "handler (snd (copyDefaultClusterPullSecret secret s)) = handler s"
proof (cases secret)
  case None
  show ?thesis
  proof (cases "Get (secretclientwrapper (handler s)) (calls s) coreosPullSecretNamespace coreosPullSecretName")
    case (Inl e)
    with None show ?thesis
      by (simp add: copyDefaultClusterPullSecret_def secretclientwrapper_Get_def)
  next
    case (Inr found)
    with None show ?thesis
      by (cases found)
        (simp_all add: copyDefaultClusterPullSecret_def secretclientwrapper_Get_def
          createOrUpdate_handler)
  qed
next
  case (Some given)
  then show ?thesis
    by (simp add: copyDefaultClusterPullSecret_def createOrUpdate_handler)
qed

lemma manageDockerCfgSecret_handler:
  "handler (snd (manageDockerCfgSecret deleted secret s)) = handler s"
proof -
  have c: "handler (snd (copyDefaultClusterPullSecret a s)) = handler s" for a
    by (rule copyDefaultClusterPullSecret_handler)
  have c': "handler s1 = handler s" if "copyDefaultClusterPullSecret a s = (r, s1)" for a r s1
    using c [of a] that by simp
  show ?thesis
    by (auto simp: manageDockerCfgSecret_def setCondition_def secretclientwrapper_Delete_def
        split: prod.splits option.splits dest: c')
qed


subsection \<open>The busy gate\<close>

text \<open>
  C5. If the upsert counter is greater than zero, \<open>processSecretEvent\<close> returns the
  non-nil retry error at once, for every secret, event and state: the state comes back as
  it was, so the configuration and the retry counter are unchanged and no call reached
  the secret store or the status writer.
\<close>

theorem C5_busy_gate:
  "0 < upserts \<Longrightarrow>
   processSecretEvent pe upserts secret event s = (Some busyError, s)"
  by (simp add: processSecretEvent_def)

theorem C5_busy_gate_witness:
  "(0::int) < 2 \<and>
   processSecretEvent Some 2 sourceSecret \<lparr>Deleted = False\<rparr> (fakeState None Managed ConditionFalse 1) =
     (Some busyError, fakeState None Managed ConditionFalse 1)"
  using C5_busy_gate [of 2 Some sourceSecret "\<lparr>Deleted = False\<rparr>" "fakeState None Managed ConditionFalse 1"]
  by simp

subsection \<open>The relevance filter\<close>

text \<open>
  C3, amended. For every event whose secret matches neither the source identity nor the
  mirror identity and is not in namespace openshift, \<open>processSecretEvent\<close>, with
  management state Managed and no upsert in flight, returns nil, leaves the configuration
  (every condition) unchanged and calls neither the secret store nor the status writer.
  A secret of another name inside namespace openshift is not covered: the branch on the
  namespace (line 160) comes before the filter of \<open>manageDockerCfgSecret\<close> (line 54)
  and does not look at the name.
\<close>

theorem C3_noop:
  assumes "\<not> 0 < upserts"
    and "ManagementState (config s) = Managed"
    and "\<not> secretsWeCareAbout secret"
    and "Namespace secret \<noteq> ''openshift''"
  shows "fst (processSecretEvent pe upserts secret event s) = None
         \<and> config (snd (processSecretEvent pe upserts secret event s)) = config s
         \<and> calls (snd (processSecretEvent pe upserts secret event s)) = calls s"
  using assms by (simp add: processSecretEvent_def manageAndFlush_def manageDockerCfgSecret_def)

theorem C3_noop_witness:
  "fst (processSecretEvent Some 0 (strangerSecret\<lparr>Namespace := ''default''\<rparr>) \<lparr>Deleted = True\<rparr>
          (fakeState None Managed ConditionTrue 0)) = None
   \<and> config (snd (processSecretEvent Some 0 (strangerSecret\<lparr>Namespace := ''default''\<rparr>)
          \<lparr>Deleted = True\<rparr> (fakeState None Managed ConditionTrue 0))) =
       config (fakeState None Managed ConditionTrue 0)
   \<and> calls (snd (processSecretEvent Some 0 (strangerSecret\<lparr>Namespace := ''default''\<rparr>)
          \<lparr>Deleted = True\<rparr> (fakeState None Managed ConditionTrue 0))) = []"
  using C3_noop [of 0 "fakeState None Managed ConditionTrue 0"
      "strangerSecret\<lparr>Namespace := ''default''\<rparr>" Some "\<lparr>Deleted = True\<rparr>"]
  by (simp add: secretsWeCareAbout_def const_defs fake_defs)

text \<open>
  The claim as stated fails for a delete event of a secret named \<open>builder-token\<close> in
  namespace openshift while the condition is True: the call returns the retry error.
\<close>

theorem C3_counterexample:
  "\<not> secretsWeCareAbout strangerSecret
   \<and> fst (processSecretEvent Some 0 strangerSecret \<lparr>Deleted = True\<rparr>
            (fakeState None Managed ConditionTrue 0)) \<noteq> None"
  by (simp add: code_defs cond_defs const_defs fake_defs)

subsection \<open>The retry counter\<close>

text \<open>
  C4, amended. A call of \<open>processSecretEvent\<close> resets the retry counter to 0 when
  it gets past the branch on the openshift namespace (line 201): the gate is clear, the
  state is not Unmanaged, and the secret is outside namespace openshift or the event is a
  delete that is neither retried nor finalized in removed state. A retried delete adds
  one. Every other return leaves the counter as it was: the busy gate, the Unmanaged
  state, a non-delete event in namespace openshift, and a delete finalized in removed
  state.
\<close>

theorem C4_counter:
  "secretRetryCount (handler (snd (processSecretEvent pe upserts secret event s))) =
     (if 0 < upserts \<or> ManagementState (config s) = Unmanaged then secretRetryCount (handler s)
      else if Namespace secret = ''openshift'' \<and> \<not> Deleted event then secretRetryCount (handler s)
      else if Namespace secret = ''openshift'' \<and> Config_ConditionTrue (config s) ImportCredentialsExist
              \<and> secretRetryCount (handler s) < 3 then secretRetryCount (handler s) + 1
      else if Namespace secret = ''openshift'' \<and> ManagementState (config s) = Removed
        then secretRetryCount (handler s)
      else 0)"
proof -
  let ?s0 = "s\<lparr>handler := (handler s)\<lparr>secretRetryCount := 0\<rparr>\<rparr>"
  have m: "secretRetryCount (handler (snd (manageAndFlush pe r d secret s))) = 0" for r d
    using manageDockerCfgSecret_handler [of d secret ?s0]
    by (cases "manageDockerCfgSecret d secret ?s0")
      (auto simp: manageAndFlush_def Let_def crdwrapper_UpdateStatus_def split: option.splits)
  show ?thesis
    by (simp add: processSecretEvent_def Let_def m crdwrapper_UpdateStatus_def setCondition_def
        processError_def)
qed

theorem C4_counter_witness:
  "secretRetryCount (handler (snd (processSecretEvent Some 0 sourceSecret \<lparr>Deleted = False\<rparr>
      (fakeState None Managed ConditionFalse 2)))) = 0"
  using C4_counter [of Some 0 sourceSecret "\<lparr>Deleted = False\<rparr>" "fakeState None Managed ConditionFalse 2"]
  by (simp add: fake_defs)

text \<open>
  The claim as stated fails for the echo of the operator's own write: an annotated mirror
  secret, not deleted, condition True, counter 2. The call returns nil and the counter
  stays 2.
\<close>

theorem C4_counterexample:
  "fst (processSecretEvent Some 0 mirrorSecret \<lparr>Deleted = False\<rparr>
          (fakeState None Managed ConditionTrue 2)) = None
   \<and> secretRetryCount (handler (snd (processSecretEvent Some 0 mirrorSecret \<lparr>Deleted = False\<rparr>
          (fakeState None Managed ConditionTrue 2)))) = 2"
  by (simp add: code_defs cond_defs const_defs fake_defs)

subsection \<open>Deletion of the mirror secret: the bounded retry\<close>

text \<open>
  C1, amended. For delete events of a secret in namespace openshift, each delivered with
  the gate clear: starting from retry counter 0 with the condition True and a management
  state other than Unmanaged (Removed included), each of the first three events returns
  the non-nil retry error and adds one to the counter, and the three leave the
  configuration unchanged and make no call. A fourth such event finalizes the deletion
  when the management state is Removed: the condition is set False and the call makes
  exactly one interface call, an \<open>UpdateStatus\<close>, whose answer it returns. The first
  delete event in Removed state finalizes the deletion in that way when the condition is
  not True.
\<close>

theorem C1_bounded_retry:
  assumes "Namespace secret = ''openshift''" and "Deleted event"
    and "\<not> 0 < u1" and "\<not> 0 < u2" and "\<not> 0 < u3" and "\<not> 0 < u4"
  shows
    "(Config_ConditionTrue (config s) ImportCredentialsExist
        \<and> ManagementState (config s) \<noteq> Unmanaged \<and> secretRetryCount (handler s) = 0 \<longrightarrow>
      deliveries pe [(u1, secret, event), (u2, secret, event), (u3, secret, event)] s =
        ([Some deletionRetryError, Some deletionRetryError, Some deletionRetryError],
         s\<lparr>handler := (handler s)\<lparr>secretRetryCount := 3\<rparr>\<rparr>))
     \<and> (Config_ConditionTrue (config s) ImportCredentialsExist
          \<and> ManagementState (config s) = Removed \<and> secretRetryCount (handler s) = 0 \<longrightarrow>
        (let r = deliveries pe
                   [(u1, secret, event), (u2, secret, event), (u3, secret, event), (u4, secret, event)] s
         in fst r = [Some deletionRetryError, Some deletionRetryError, Some deletionRetryError,
                     UpdateStatus (crdwrapper (handler s)) (calls s) (config (snd r))]
            \<and> Status (Condition (config (snd r)) ImportCredentialsExist) = ConditionFalse
            \<and> calls (snd r) = calls s @ [UpdateStatusCall (config (snd r))]))
     \<and> (\<not> Config_ConditionTrue (config s) ImportCredentialsExist
          \<and> ManagementState (config s) = Removed \<longrightarrow>
        (let r = processSecretEvent pe u1 secret event s
         in fst r = UpdateStatus (crdwrapper (handler s)) (calls s) (config (snd r))
            \<and> Status (Condition (config (snd r)) ImportCredentialsExist) = ConditionFalse
            \<and> calls (snd r) = calls s @ [UpdateStatusCall (config (snd r))]))"
  using assms
  by (simp add: processSecretEvent_def Let_def crdwrapper_UpdateStatus_def setCondition_def
      GoodConditionUpdate_def Condition_def Config_ConditionTrue_def)

theorem C1_bounded_retry_witness:
  "deliveries Some [(0, mirrorSecret, \<lparr>Deleted = True\<rparr>), (0, mirrorSecret, \<lparr>Deleted = True\<rparr>),
       (0, mirrorSecret, \<lparr>Deleted = True\<rparr>)] (fakeState None Removed ConditionTrue 0) =
     ([Some deletionRetryError, Some deletionRetryError, Some deletionRetryError],
      fakeState None Removed ConditionTrue 3)
   \<and> fst (deliveries Some [(0, mirrorSecret, \<lparr>Deleted = True\<rparr>), (0, mirrorSecret, \<lparr>Deleted = True\<rparr>),
       (0, mirrorSecret, \<lparr>Deleted = True\<rparr>), (0, mirrorSecret, \<lparr>Deleted = True\<rparr>)]
       (fakeState None Removed ConditionTrue 0)) =
     [Some deletionRetryError, Some deletionRetryError, Some deletionRetryError, None]
   \<and> Status (Condition (config (snd (processSecretEvent Some 0 mirrorSecret \<lparr>Deleted = True\<rparr>
         (fakeState None Removed ConditionFalse 0)))) ImportCredentialsExist) = ConditionFalse"
  using C1_bounded_retry [of mirrorSecret "\<lparr>Deleted = True\<rparr>" 0 0 0 0
      "fakeState None Removed ConditionTrue 0" Some]
    C1_bounded_retry [of mirrorSecret "\<lparr>Deleted = True\<rparr>" 0 0 0 0
      "fakeState None Removed ConditionFalse 0" Some]
  by (simp add: Let_def cond_defs const_defs fake_defs)

text \<open>
  The claim as stated fails twice. In Managed state the fourth delete event does not
  finalize anything: it moves on to \<open>manageDockerCfgSecret\<close>, which copies the source
  secret again; the condition stays True and the status writer is never called. In
  Removed state with the condition True, the first delete event is retried like any other.
\<close>

theorem C1_counterexample:
  "fst (deliveries Some [(0, mirrorSecret, \<lparr>Deleted = True\<rparr>), (0, mirrorSecret, \<lparr>Deleted = True\<rparr>),
       (0, mirrorSecret, \<lparr>Deleted = True\<rparr>), (0, mirrorSecret, \<lparr>Deleted = True\<rparr>)]
       (fakeState None Managed ConditionTrue 0)) =
     [Some deletionRetryError, Some deletionRetryError, Some deletionRetryError, None]
   \<and> Status (Condition (config (snd (deliveries Some
       [(0, mirrorSecret, \<lparr>Deleted = True\<rparr>), (0, mirrorSecret, \<lparr>Deleted = True\<rparr>),
        (0, mirrorSecret, \<lparr>Deleted = True\<rparr>), (0, mirrorSecret, \<lparr>Deleted = True\<rparr>)]
       (fakeState None Managed ConditionTrue 0)))) ImportCredentialsExist) = ConditionTrue
   \<and> filter isUpdateStatusCall (calls (snd (deliveries Some
       [(0, mirrorSecret, \<lparr>Deleted = True\<rparr>), (0, mirrorSecret, \<lparr>Deleted = True\<rparr>),
        (0, mirrorSecret, \<lparr>Deleted = True\<rparr>), (0, mirrorSecret, \<lparr>Deleted = True\<rparr>)]
       (fakeState None Managed ConditionTrue 0)))) = []
   \<and> processSecretEvent Some 0 mirrorSecret \<lparr>Deleted = True\<rparr> (fakeState None Removed ConditionTrue 0) =
       (Some deletionRetryError, fakeState None Removed ConditionTrue 1)"
  by (simp add: code_defs cond_defs wrapper_defs const_defs fake_defs)

subsection \<open>Non-delete events in the openshift namespace\<close>

text \<open>
  C2, amended. For every non-delete event whose secret is in namespace openshift and
  lacks the version annotation (a nil annotation map included), delivered with the gate
  clear and a management state other than Unmanaged, \<open>processSecretEvent\<close> sets the
  ImportCredentialsExist condition to Unknown with a non-empty message.
\<close>

theorem C2_unstamped:
  assumes "\<not> 0 < upserts" and "ManagementState (config s) \<noteq> Unmanaged"
    and "Namespace secret = ''openshift''" and "\<not> Deleted event"
    and "\<forall>annotations. Annotations secret = Some annotations
           \<longrightarrow> annotations SamplesVersionAnnotation = None"
  shows "Status (Condition (config (snd (processSecretEvent pe upserts secret event s)))
                   ImportCredentialsExist) = ConditionUnknown
         \<and> Message (Condition (config (snd (processSecretEvent pe upserts secret event s)))
                   ImportCredentialsExist) \<noteq> []"
proof -
  from assms(5) have "\<not> hasVersionAnnotation secret"
    by (cases "Annotations secret") (simp_all add: hasVersionAnnotation_def)
  with assms(1-4) show ?thesis
    by (simp add: processSecretEvent_def processError_def Condition_def)
qed

theorem C2_unstamped_witness:
  "Status (Condition (config (snd (processSecretEvent Some 0 strangerSecret \<lparr>Deleted = False\<rparr>
        (fakeState None Managed ConditionTrue 0)))) ImportCredentialsExist) = ConditionUnknown
   \<and> Message (Condition (config (snd (processSecretEvent Some 0 strangerSecret \<lparr>Deleted = False\<rparr>
        (fakeState None Managed ConditionTrue 0)))) ImportCredentialsExist) \<noteq> []"
  using C2_unstamped [of 0 "fakeState None Managed ConditionTrue 0" strangerSecret
      "\<lparr>Deleted = False\<rparr>" Some]
  by (simp add: fake_defs)

text \<open>
  The claim as stated fails twice, for a secret without annotations in namespace
  openshift, not deleted, with the condition True. In Unmanaged state the call returns at
  line 153: the configuration is unchanged and nothing is called. In Managed state the
  call reports the condition in memory and returns what \<open>processError\<close> returns (line
  179): the status writer is not called.
\<close>

theorem C2_counterexample:
  "config (snd (processSecretEvent Some 0 strangerSecret \<lparr>Deleted = False\<rparr>
        (fakeState None Unmanaged ConditionTrue 0))) = config (fakeState None Unmanaged ConditionTrue 0)
   \<and> Status (Condition (config (fakeState None Unmanaged ConditionTrue 0)) ImportCredentialsExist)
        = ConditionTrue
   \<and> calls (snd (processSecretEvent Some 0 strangerSecret \<lparr>Deleted = False\<rparr>
        (fakeState None Unmanaged ConditionTrue 0))) = []
   \<and> calls (snd (processSecretEvent Some 0 strangerSecret \<lparr>Deleted = False\<rparr>
        (fakeState None Managed ConditionTrue 0))) = []"
  by (simp add: code_defs cond_defs wrapper_defs const_defs fake_defs)

text \<open>
  C6, amended. With the gate clear at each delivery and a management state other than
  Unmanaged: delivering the same non-delete event for a secret in namespace openshift
  that carries the version annotation twice, with the condition not True at first,
  makes exactly one interface call in total, an \<open>UpdateStatus\<close>. The first delivery sets
  the condition True and returns the answer of that call; the second returns nil and
  leaves the state as the first left it. If the condition is already True, a single such
  delivery returns nil and changes nothing.
\<close>

theorem C6_echo:
  assumes "\<not> 0 < u1" and "\<not> 0 < u2" and "ManagementState (config s) \<noteq> Unmanaged"
    and "Namespace secret = ''openshift''" and "\<not> Deleted event"
    and "Annotations secret = Some annotations"
    and "annotations SamplesVersionAnnotation = Some v"
  shows
    "(\<not> Config_ConditionTrue (config s) ImportCredentialsExist \<longrightarrow>
       (let r = deliveries pe [(u1, secret, event), (u2, secret, event)] s
        in fst r = [UpdateStatus (crdwrapper (handler s)) (calls s) (config (snd r)), None]
           \<and> Status (Condition (config (snd r)) ImportCredentialsExist) = ConditionTrue
           \<and> calls (snd r) = calls s @ [UpdateStatusCall (config (snd r))]
           \<and> snd r = snd (processSecretEvent pe u1 secret event s)))
     \<and> (Config_ConditionTrue (config s) ImportCredentialsExist \<longrightarrow>
          processSecretEvent pe u1 secret event s = (None, s))"
  using assms
  by (simp add: processSecretEvent_def Let_def hasVersionAnnotation_def crdwrapper_UpdateStatus_def
      setCondition_def GoodConditionUpdate_def Condition_def Config_ConditionTrue_def)

theorem C6_echo_witness:
  "fst (deliveries Some [(0, mirrorSecret, \<lparr>Deleted = False\<rparr>), (0, mirrorSecret, \<lparr>Deleted = False\<rparr>)]
         (fakeState None Managed ConditionFalse 0)) = [None, None]
   \<and> length (calls (snd (deliveries Some
         [(0, mirrorSecret, \<lparr>Deleted = False\<rparr>), (0, mirrorSecret, \<lparr>Deleted = False\<rparr>)]
         (fakeState None Managed ConditionFalse 0)))) = 1
   \<and> processSecretEvent Some 0 mirrorSecret \<lparr>Deleted = False\<rparr> (fakeState None Managed ConditionTrue 0) =
        (None, fakeState None Managed ConditionTrue 0)"
  using C6_echo [of 0 0 "fakeState None Managed ConditionFalse 0" mirrorSecret "\<lparr>Deleted = False\<rparr>"
      "Map.empty(''SamplesVersionAnnotation'' \<mapsto> ''4.0.0'')" "''4.0.0''" Some]
    C6_echo [of 0 0 "fakeState None Managed ConditionTrue 0" mirrorSecret "\<lparr>Deleted = False\<rparr>"
      "Map.empty(''SamplesVersionAnnotation'' \<mapsto> ''4.0.0'')" "''4.0.0''" Some]
  by (simp add: Let_def code_defs wrapper_defs cond_defs const_defs fake_defs)

text \<open>
  The claim as stated fails in Unmanaged state: both deliveries return nil at line 153,
  the condition stays as it was, not True, and the status writer is never called.
\<close>

theorem C6_counterexample:
  "\<not> Config_ConditionTrue (config (fakeState None Unmanaged ConditionFalse 0)) ImportCredentialsExist
   \<and> deliveries Some [(0, mirrorSecret, \<lparr>Deleted = False\<rparr>), (0, mirrorSecret, \<lparr>Deleted = False\<rparr>)]
         (fakeState None Unmanaged ConditionFalse 0) =
       ([None, None], fakeState None Unmanaged ConditionFalse 0)
   \<and> calls (fakeState None Unmanaged ConditionFalse 0) = []"
  by (simp add: code_defs cond_defs wrapper_defs const_defs fake_defs)

subsection \<open>Copying the pull secret\<close>

text \<open>
  C7. Every \<open>Create\<close> that \<open>copyDefaultClusterPullSecret\<close> issues, and the \<open>Update\<close>
  that follows it, goes to namespace openshift with one payload: the copy of the secret
  with Name \<open>SamplesRegistryCredentials\<close>, empty Namespace, ResourceVersion and UID, and
  an annotation map of exactly one entry, \<open>SamplesVersionAnnotation\<close> to the handler's
  version. When the create answers AlreadyExists, the update is issued with that payload
  and its answer is returned; any other answer of the create, nil included, is returned as
  it is and no update is issued. Without a secret supplied, the source secret is fetched
  first: an error of the fetch is returned as it is, a nil secret ends the call with nil,
  and a fetched secret is copied like a supplied one.
\<close>

theorem C7_copy:
  "(let payload = secretToCreate (handler s) given;
        created = Create (secretclientwrapper (handler s)) (calls s) ''openshift'' payload;
        r = copyDefaultClusterPullSecret (Some given) s
    in Name payload = SamplesRegistryCredentials
       \<and> Namespace payload = [] \<and> ResourceVersion payload = [] \<and> UID payload = []
       \<and> Annotations payload = Some (Map.empty(SamplesVersionAnnotation \<mapsto> version (handler s)))
       \<and> Labels payload = Labels given \<and> Data payload = Data given
       \<and> (if IsAlreadyExists created
           then calls (snd r) = calls s @ [CreateCall ''openshift'' payload,
                                           UpdateCall ''openshift'' payload]
                \<and> fst r = Update (secretclientwrapper (handler s))
                             (calls s @ [CreateCall ''openshift'' payload]) ''openshift'' payload
           else calls (snd r) = calls s @ [CreateCall ''openshift'' payload]
                \<and> fst r = created))
   \<and> (let got = s\<lparr>calls := calls s @ [GetCall coreosPullSecretNamespace coreosPullSecretName]\<rparr>
       in copyDefaultClusterPullSecret None s =
            (case Get (secretclientwrapper (handler s)) (calls s)
                    coreosPullSecretNamespace coreosPullSecretName of
               Inl err \<Rightarrow> (Some err, got)
             | Inr None \<Rightarrow> (None, got)
             | Inr (Some fetched) \<Rightarrow> copyDefaultClusterPullSecret (Some fetched) got))"
  by (simp add: copyDefaultClusterPullSecret_def createOrUpdate_def secretToCreate_def Let_def
      wrapper_defs split: sum.splits option.splits)

theorem C7_copy_witness:
  "copyDefaultClusterPullSecret (Some sourceSecret) (fakeState None Managed ConditionFalse 0) =
     (None, (fakeState None Managed ConditionFalse 0)
        \<lparr>calls := [CreateCall ''openshift''
             (sourceSecret\<lparr>Name := ''SamplesRegistryCredentials'', Namespace := [],
                ResourceVersion := [], UID := [],
                Annotations := Some (Map.empty(''SamplesVersionAnnotation'' \<mapsto> ''4.0.0''))\<rparr>)]\<rparr>)
   \<and> calls (snd (copyDefaultClusterPullSecret None
        (fakeState (Some (StatusError StatusReasonAlreadyExists ''secrets already exists''))
           Managed ConditionFalse 0))) =
      [GetCall ''kube-system'' ''coreos-pull-secret'',
       CreateCall ''openshift''
         (sourceSecret\<lparr>Name := ''SamplesRegistryCredentials'', Namespace := [],
            ResourceVersion := [], UID := [],
            Annotations := Some (Map.empty(''SamplesVersionAnnotation'' \<mapsto> ''4.0.0''))\<rparr>),
       UpdateCall ''openshift''
         (sourceSecret\<lparr>Name := ''SamplesRegistryCredentials'', Namespace := [],
            ResourceVersion := [], UID := [],
            Annotations := Some (Map.empty(''SamplesVersionAnnotation'' \<mapsto> ''4.0.0''))\<rparr>)]
   \<and> fst (copyDefaultClusterPullSecret (Some sourceSecret)
        (fakeState (Some (StatusError StatusReasonOther ''forbidden'')) Managed ConditionFalse 0)) =
      Some (StatusError StatusReasonOther ''forbidden'')"
  using C7_copy [of "fakeState None Managed ConditionFalse 0" sourceSecret]
    C7_copy [of "fakeState (Some (StatusError StatusReasonAlreadyExists ''secrets already exists''))
           Managed ConditionFalse 0" sourceSecret]
    C7_copy [of "fakeState (Some (StatusError StatusReasonOther ''forbidden'')) Managed ConditionFalse 0"
      sourceSecret]
  by (simp add: Let_def code_defs wrapper_defs const_defs fake_defs)

subsection \<open>Waiting for the credential\<close>

text \<open>
  C8. \<open>WaitingForCredential\<close> returns (false, false) and leaves the configuration
  unchanged when the cluster does not need credentials. When it does and the message of
  the ImportCredentialsExist condition is not empty (so also when the condition is False
  with a message), it returns (true, false) and leaves the configuration unchanged. When
  it does and the message is empty, it returns (true, true) and sets the condition False
  with a non-empty message.
\<close>

theorem C8_waiting:
  "(\<not> ClusterNeedsCreds cfg \<longrightarrow> WaitingForCredential pe cfg = ((False, False), cfg))
   \<and> (ClusterNeedsCreds cfg \<and> Message (Condition cfg ImportCredentialsExist) \<noteq> [] \<longrightarrow>
        WaitingForCredential pe cfg = ((True, False), cfg))
   \<and> (ClusterNeedsCreds cfg \<and> Message (Condition cfg ImportCredentialsExist) = [] \<longrightarrow>
        fst (WaitingForCredential pe cfg) = (True, True)
        \<and> Status (Condition (snd (WaitingForCredential pe cfg)) ImportCredentialsExist) = ConditionFalse
        \<and> Message (Condition (snd (WaitingForCredential pe cfg)) ImportCredentialsExist) \<noteq> [])"
  by (simp add: WaitingForCredential_def Let_def processError_def Condition_def)

theorem C8_waiting_witness:
  "WaitingForCredential Some (config (fakeState None Managed ConditionFalse 0)\<lparr>ClusterNeedsCreds := False\<rparr>) =
     ((False, False), config (fakeState None Managed ConditionFalse 0)\<lparr>ClusterNeedsCreds := False\<rparr>)
   \<and> WaitingForCredential Some
        (snd (WaitingForCredential Some (config (fakeState None Managed ConditionFalse 0)))) =
      ((True, False), snd (WaitingForCredential Some (config (fakeState None Managed ConditionFalse 0))))
   \<and> fst (WaitingForCredential Some (config (fakeState None Managed ConditionFalse 0))) = (True, True)
   \<and> Status (Condition (snd (WaitingForCredential Some (config (fakeState None Managed ConditionFalse 0))))
        ImportCredentialsExist) = ConditionFalse"
  using C8_waiting [of "config (fakeState None Managed ConditionFalse 0)\<lparr>ClusterNeedsCreds := False\<rparr>" Some]
    C8_waiting [of "snd (WaitingForCredential Some (config (fakeState None Managed ConditionFalse 0)))" Some]
    C8_waiting [of "config (fakeState None Managed ConditionFalse 0)" Some]
  by (simp add: WaitingForCredential_def Let_def cond_defs const_defs fake_defs)

subsection \<open>Deletion of the source secret\<close>

text \<open>
  C9. For a delete of the source secret (name \<open>coreos-pull-secret\<close>, namespace
  \<open>kube-system\<close>), \<open>manageDockerCfgSecret\<close> makes exactly one call, the delete of
  \<open>SamplesRegistryCredentials\<close> in namespace openshift. When that delete succeeds or
  answers NotFound, the ImportCredentialsExist condition is set False and nil is returned.
  Any other error of the delete is returned as it is, with the configuration unchanged.
\<close>

theorem C9_source_deleted:
  assumes "Name secret = coreosPullSecretName" and "Namespace secret = coreosPullSecretNamespace"
  shows
    "(let answer = Delete (secretclientwrapper (handler s)) (calls s) ''openshift''
                     SamplesRegistryCredentials;
          r = manageDockerCfgSecret True secret s
      in calls (snd r) = calls s @ [DeleteCall ''openshift'' SamplesRegistryCredentials]
         \<and> (answer = None \<or> IsNotFound answer \<longrightarrow>
              fst r = None
              \<and> Status (Condition (config (snd r)) ImportCredentialsExist) = ConditionFalse)
         \<and> (answer \<noteq> None \<and> \<not> IsNotFound answer \<longrightarrow>
              fst r = answer \<and> config (snd r) = config s))"
  using assms
  by (auto simp: manageDockerCfgSecret_def secretsWeCareAbout_def Let_def const_defs
      secretclientwrapper_Delete_def setCondition_def GoodConditionUpdate_def Condition_def)

theorem C9_source_deleted_witness:
  "manageDockerCfgSecret True sourceSecret (fakeState None Managed ConditionTrue 0) =
     (None, (fakeState None Managed ConditionFalse 0)
              \<lparr>calls := [DeleteCall ''openshift'' SamplesRegistryCredentials]\<rparr>)
   \<and> fst (manageDockerCfgSecret True sourceSecret
        (withDeleteAnswer (Some (StatusError StatusReasonNotFound ''secrets not found''))
           (fakeState None Managed ConditionTrue 0))) = None
   \<and> Status (Condition (config (snd (manageDockerCfgSecret True sourceSecret
        (withDeleteAnswer (Some (StatusError StatusReasonNotFound ''secrets not found''))
           (fakeState None Managed ConditionTrue 0))))) ImportCredentialsExist) = ConditionFalse
   \<and> manageDockerCfgSecret True sourceSecret
        (withDeleteAnswer (Some (StatusError StatusReasonOther ''timeout''))
           (fakeState None Managed ConditionTrue 0)) =
      (Some (StatusError StatusReasonOther ''timeout''),
       (withDeleteAnswer (Some (StatusError StatusReasonOther ''timeout''))
           (fakeState None Managed ConditionTrue 0))
         \<lparr>calls := [DeleteCall ''openshift'' SamplesRegistryCredentials]\<rparr>)"
  using C9_source_deleted [of sourceSecret "fakeState None Managed ConditionTrue 0"]
    C9_source_deleted [of sourceSecret
      "withDeleteAnswer (Some (StatusError StatusReasonNotFound ''secrets not found''))
         (fakeState None Managed ConditionTrue 0)"]
    C9_source_deleted [of sourceSecret
      "withDeleteAnswer (Some (StatusError StatusReasonOther ''timeout''))
         (fakeState None Managed ConditionTrue 0)"]
  by (simp add: Let_def code_defs wrapper_defs cond_defs const_defs fake_defs withDeleteAnswer_def)

subsection \<open>Errors of manageDockerCfgSecret\<close>

text \<open>
  C10. When \<open>processSecretEvent\<close> reaches \<open>manageDockerCfgSecret\<close> (gate clear, state
  neither Unmanaged nor Removed, and in namespace openshift only a delete event that is not
  retried) and that call returns a non-nil error, then \<open>processSecretEvent\<close> sets the
  ImportCredentialsExist condition to Unknown with the text of the error, calls
  \<open>UpdateStatus\<close> once with that configuration after whatever calls
  \<open>manageDockerCfgSecret\<close> made, and returns the answer of \<open>UpdateStatus\<close>: nil when the
  flush succeeds, whatever the secret error was.
\<close>

theorem C10_error_folded:
  assumes "\<not> 0 < upserts"
    and "ManagementState (config s) \<noteq> Unmanaged"
    and "ManagementState (config s) \<noteq> Removed"
    and "Namespace secret = ''openshift'' \<longrightarrow>
           Deleted event \<and> \<not> (Config_ConditionTrue (config s) ImportCredentialsExist
                                \<and> secretRetryCount (handler s) < 3)"
    and "manageDockerCfgSecret (Deleted event) secret
           (s\<lparr>handler := (handler s)\<lparr>secretRetryCount := 0\<rparr>\<rparr>) = (Some err, s1)"
  shows
    "(let r = processSecretEvent pe upserts secret event s
      in Status (Condition (config (snd r)) ImportCredentialsExist) = ConditionUnknown
         \<and> Message (Condition (config (snd r)) ImportCredentialsExist) = Error err
         \<and> calls (snd r) = calls s1 @ [UpdateStatusCall (config (snd r))]
         \<and> fst r = UpdateStatus (crdwrapper (handler s)) (calls s1) (config (snd r)))"
proof -
  let ?s0 = "s\<lparr>handler := (handler s)\<lparr>secretRetryCount := 0\<rparr>\<rparr>"
  have h: "crdwrapper (handler s1) = crdwrapper (handler s)"
    using manageDockerCfgSecret_handler [of "Deleted event" secret ?s0] assms(5) by simp
  have m: "manageAndFlush pe False (Deleted event) secret s =
             crdwrapper_UpdateStatus
               (s1\<lparr>config := snd (processError pe (config s1) ImportCredentialsExist
                                     ConditionUnknown err)\<rparr>)"
    using assms(5) by (simp add: manageAndFlush_def)
  have p: "processSecretEvent pe upserts secret event s =
             manageAndFlush pe False (Deleted event) secret s"
    using assms(1-4) by (auto simp: processSecretEvent_def Let_def)
  show ?thesis
    by (simp add: p m h crdwrapper_UpdateStatus_def processError_def Condition_def)
qed

theorem C10_error_folded_witness:
  "processSecretEvent Some 0 sourceSecret \<lparr>Deleted = False\<rparr>
      (fakeState (Some (StatusError StatusReasonOther ''quota exceeded'')) Managed ConditionTrue 2) =
     (None,
      (fakeState (Some (StatusError StatusReasonOther ''quota exceeded'')) Managed ConditionTrue 0)
        \<lparr>config := (config (fakeState None Managed ConditionTrue 0))
             \<lparr>Conditions := Map.empty(ImportCredentialsExist \<mapsto>
                  \<lparr>Status = ConditionUnknown, Message = ''quota exceeded''\<rparr>)\<rparr>,
         calls := [CreateCall ''openshift'' (secretToCreate
                      (handler (fakeState None Managed ConditionTrue 0)) sourceSecret),
                   UpdateStatusCall ((config (fakeState None Managed ConditionTrue 0))
                     \<lparr>Conditions := Map.empty(ImportCredentialsExist \<mapsto>
                        \<lparr>Status = ConditionUnknown, Message = ''quota exceeded''\<rparr>)\<rparr>)]\<rparr>)"
  using C10_error_folded [of 0
      "fakeState (Some (StatusError StatusReasonOther ''quota exceeded'')) Managed ConditionTrue 2"
      sourceSecret "\<lparr>Deleted = False\<rparr>" "StatusError StatusReasonOther ''quota exceeded''"
      "snd (manageDockerCfgSecret False sourceSecret
         (fakeState (Some (StatusError StatusReasonOther ''quota exceeded'')) Managed ConditionTrue 0))"
      Some]
  by (simp add: Let_def code_defs wrapper_defs cond_defs const_defs fake_defs)

end
